theory Spec2Isabelle
  imports Complex_Main "HOL-Library.AList"
begin

section \<open>Values, errors and the store of dict objects\<close>

text \<open>
  The source is \<^verbatim>\<open>src/group3/code/data.py\<close>. Python exceptions are values of
  \<open>error\<close>; a call that can raise returns \<open>error + 'a\<close> with \<open>Inl\<close> for the
  exception. \<open>OSError\<close> stands for whatever the two external collaborators
  (\<^verbatim>\<open>pd.read_csv\<close>, \<^verbatim>\<open>BertTokenizer\<close>) raise. \<open>BadAddress\<close> is not a Python
  exception: it is the result of reading an address that was never allocated, which
  no Python program can do.
\<close>

datatype error = KeyError | IndexError | TypeError | ValueError | OSError | BadAddress

text \<open>
  A cell of the data frame is a number or a string: \<open>Num x\<close> is a numeric cell of
  value \<open>x\<close>, which reaches \<^verbatim>\<open>Tensor\<close> as a Python \<^verbatim>\<open>int\<close> or as a Python \<^verbatim>\<open>float\<close>, a
  double (not-a-number and infinite cells are outside this model). An element of a
  tensor is a finite value, an infinity or not-a-number. The conversion that
  \<^verbatim>\<open>torch.Tensor\<close> applies when it stores a Python number is the parameter \<open>f32\<close> of
  every function that builds a tensor: what does not depend on the rounding is proved
  for every \<open>f32\<close>. The conversion of the code, to single precision, is \<open>to_float32\<close>
  below.
\<close>

datatype cell = Num real | Str string

datatype scalar = Finite real | PosInf | NegInf | NaN

text \<open>Tensors of dimension 0, 1 and 2; a 2-D tensor is the list of its rows.\<close>

datatype tensor = T0 scalar | T1 "scalar list" | T2 "scalar list list"

text \<open>
  A Python dict is an association list in insertion order: \<open>AList.update\<close> is
  \<^verbatim>\<open>d[k] = v\<close> (overwrite in place, or append), \<open>AList.delete\<close> is
  \<^verbatim>\<open>d.pop(k, None)\<close>, \<open>map_of\<close> is the lookup. Dict objects live in a store,
  a list indexed by address, because \<^verbatim>\<open>item.pop\<close> mutates the object it is given:
  the tokenized batch (a \<^verbatim>\<open>BatchEncoding\<close>) and every item mapping are dict objects.
  Nothing in the source writes to a tensor, so tensors are plain values.
\<close>

type_synonym dict = "(string \<times> tensor) list"
type_synonym addr = nat
type_synonym heap = "dict list"

definition alloc :: "dict \<Rightarrow> heap \<Rightarrow> addr \<times> heap" where
  "alloc d h = (length h, h @ [d])"

definition deref :: "heap \<Rightarrow> addr \<Rightarrow> error + dict" where
  "deref h a = (if a < length h then Inr (h ! a) else Inl BadAddress)"

definition dict_setitem :: "heap \<Rightarrow> addr \<Rightarrow> string \<Rightarrow> tensor \<Rightarrow> heap" where
  "dict_setitem h a k v = h[a := AList.update k v (h ! a)]"

definition dict_pop :: "heap \<Rightarrow> addr \<Rightarrow> string \<Rightarrow> heap" where
  "dict_pop h a k = h[a := AList.delete k (h ! a)]"

section \<open>Tensor construction and indexing\<close>

fun is_num :: "cell \<Rightarrow> bool" where
  "is_num (Num x) = True"
| "is_num (Str s) = False"

fun num_of :: "cell \<Rightarrow> real" where
  "num_of (Num x) = x"
| "num_of (Str s) = 0"

text \<open>
  \<^verbatim>\<open>Tensor(xs)\<close> on a Python list: a 1-D tensor of the converted numbers. A list that
  begins with a string raises \<^verbatim>\<open>ValueError\<close> (the string is taken for a further
  dimension); a string after a number raises \<^verbatim>\<open>TypeError\<close>.
\<close>

definition Tensor :: "(real \<Rightarrow> scalar) \<Rightarrow> cell list \<Rightarrow> error + scalar list" where
  "Tensor f32 xs =
     (if list_all is_num xs then Inr (map (\<lambda>c. f32 (num_of c)) xs)
      else (case xs of Str s # rest \<Rightarrow> Inl ValueError | _ \<Rightarrow> Inl TypeError))"

text \<open>
  An integer index into an axis of size \<open>n\<close>: \<open>0 \<le> idx < n\<close> is taken as it is,
  \<open>-n \<le> idx < 0\<close> counts from the end. Any other index is an error: an index that
  does not fit a signed 64-bit integer fails when it is converted (the overflow is a
  \<^verbatim>\<open>ValueError\<close>), one that fits is an \<^verbatim>\<open>IndexError\<close>. The size of an axis is itself
  a signed 64-bit integer, so an index in range always fits, and testing the range
  first gives the same result as converting first.
\<close>

definition norm_index :: "nat \<Rightarrow> int \<Rightarrow> error + nat" where
  "norm_index n idx =
     (if 0 \<le> idx \<and> idx < int n then Inr (nat idx)
      else if idx < 0 \<and> - int n \<le> idx then Inr (nat (idx + int n))
      else if idx < - (2 ^ 63) \<or> 2 ^ 63 \<le> idx then Inl ValueError
      else Inl IndexError)"

text \<open>
  \<^verbatim>\<open>val[idx, :]\<close>: a row of a 2-D tensor; for fewer dimensions there are too many
  indices, which is found before any index is looked at.
\<close>

fun getitem_row :: "tensor \<Rightarrow> int \<Rightarrow> error + tensor" where
  "getitem_row (T2 rows) idx =
     (case norm_index (length rows) idx of Inl e \<Rightarrow> Inl e | Inr j \<Rightarrow> Inr (T1 (rows ! j)))"
| "getitem_row (T1 xs) idx = Inl IndexError"
| "getitem_row (T0 x) idx = Inl IndexError"

text \<open>\<^verbatim>\<open>t[idx]\<close> on a 1-D tensor: a 0-D tensor.\<close>

definition getitem_elem :: "scalar list \<Rightarrow> int \<Rightarrow> error + tensor" where
  "getitem_elem xs idx =
     (case norm_index (length xs) idx of Inl e \<Rightarrow> Inl e | Inr j \<Rightarrow> Inr (T0 (xs ! j)))"

section \<open>SentenceComplexityDataset\<close>

text \<open>
  The instance attributes \<^verbatim>\<open>self.st\<close> (a reference to the tokenized batch),
  \<^verbatim>\<open>self.id\<close> and \<^verbatim>\<open>self.mos\<close> (\<open>None\<close> when there are no targets).
\<close>

record SentenceComplexityDataset =
  st :: addr
  id' :: "scalar list"
  mos :: "scalar list option"

text \<open>
  The constructor's argument \<^verbatim>\<open>data\<close>: a dict with the keys \<^verbatim>\<open>'st'\<close>, \<^verbatim>\<open>'id'\<close>
  and \<^verbatim>\<open>'mos'\<close>, each present (\<open>Some\<close>) or absent (\<open>None\<close>).
\<close>

record data_dict =
  key_st :: "addr option"
  key_id :: "cell list option"
  key_mos :: "cell list option"

text \<open>
  \<^verbatim>\<open>__init__\<close>: \<^verbatim>\<open>data['st']\<close> and \<^verbatim>\<open>data['id']\<close> raise \<^verbatim>\<open>KeyError\<close> when absent;
  the \<^verbatim>\<open>KeyError\<close> of \<^verbatim>\<open>data['mos']\<close> alone is caught.
\<close>

definition SentenceComplexityDataset_init ::
  "(real \<Rightarrow> scalar) \<Rightarrow> data_dict \<Rightarrow> error + SentenceComplexityDataset" where
  "SentenceComplexityDataset_init f32 data =
     (case key_st data of None \<Rightarrow> Inl KeyError | Some s \<Rightarrow>
      (case key_id data of None \<Rightarrow> Inl KeyError | Some ids \<Rightarrow>
       (case Tensor f32 ids of Inl e \<Rightarrow> Inl e | Inr idt \<Rightarrow>
        (case key_mos data of
           None \<Rightarrow> Inr \<lparr>st = s, id' = idt, mos = None\<rparr>
         | Some ms \<Rightarrow>
            (case Tensor f32 ms of Inl e \<Rightarrow> Inl e
             | Inr mt \<Rightarrow> Inr \<lparr>st = s, id' = idt, mos = Some mt\<rparr>)))))"

definition SentenceComplexityDataset_len :: "SentenceComplexityDataset \<Rightarrow> int" where
  "SentenceComplexityDataset_len self = int (length (id' self))"

text \<open>
  The dict comprehension \<^verbatim>\<open>{key: val[idx, :] for key, val in self.st.items()}\<close>,
  entry by entry, into the dict built so far.
\<close>

fun comprehension :: "dict \<Rightarrow> int \<Rightarrow> dict \<Rightarrow> error + dict" where
  "comprehension [] idx acc = Inr acc"
| "comprehension ((key, val) # kvs) idx acc =
     (case getitem_row val idx of
        Inl e \<Rightarrow> Inl e
      | Inr r \<Rightarrow> comprehension kvs idx (AList.update key r acc))"

text \<open>
  \<^verbatim>\<open>__getitem__\<close>: the comprehension's dict is a new object; then the identifier
  and, when \<^verbatim>\<open>self.mos is not None\<close>, the target are stored in it. The result is
  the address of the new dict, or the exception, and the store after the call.
\<close>

definition SentenceComplexityDataset_getitem ::
  "SentenceComplexityDataset \<Rightarrow> int \<Rightarrow> heap \<Rightarrow> (error + addr) \<times> heap" where
  "SentenceComplexityDataset_getitem self idx h =
     (case deref h (st self) of Inl e \<Rightarrow> (Inl e, h) | Inr batch \<Rightarrow>
      (case comprehension batch idx [] of Inl e \<Rightarrow> (Inl e, h) | Inr d \<Rightarrow>
       (case alloc d h of (item, h1) \<Rightarrow>
        (case getitem_elem (id' self) idx of Inl e \<Rightarrow> (Inl e, h1) | Inr v \<Rightarrow>
         (case dict_setitem h1 item ''id'' v of h2 \<Rightarrow>
          (case mos self of
             None \<Rightarrow> (Inr item, h2)
           | Some m \<Rightarrow>
              (case getitem_elem m idx of Inl e \<Rightarrow> (Inl e, h2)
               | Inr t \<Rightarrow> (Inr item, dict_setitem h2 item ''label'' t))))))))"

section \<open>SentenceComplexityFinetuningDataset\<close>

text \<open>
  The adapter holds \<^verbatim>\<open>self.dataset\<close>; \<^verbatim>\<open>len(self.dataset)\<close> and
  \<^verbatim>\<open>self.dataset[idx]\<close> dispatch on the class of the wrapped object, which is a
  primary container or again an adapter. (\<^verbatim>\<open>torch.utils.data.Subset\<close>, which the
  annotation of the constructor also admits, is library code and is not modelled.)
\<close>

datatype dataset =
    Primary SentenceComplexityDataset
  | Finetuning dataset

definition SentenceComplexityFinetuningDataset_init :: "dataset \<Rightarrow> dataset" where
  "SentenceComplexityFinetuningDataset_init d = Finetuning d"

fun len :: "dataset \<Rightarrow> int" where
  "len (Primary self) = SentenceComplexityDataset_len self"
| "len (Finetuning d) = len d"

fun getitem :: "dataset \<Rightarrow> int \<Rightarrow> heap \<Rightarrow> (error + addr) \<times> heap" where
  "getitem (Primary self) idx h = SentenceComplexityDataset_getitem self idx h"
| "getitem (Finetuning d) idx h =
     (case getitem d idx h of
        (Inl e, h1) \<Rightarrow> (Inl e, h1)
      | (Inr item, h1) \<Rightarrow> (Inr item, dict_pop h1 item ''id''))"

section \<open>The loader\<close>

text \<open>
  The data frame read from the CSV file: column name to column.
  \<^verbatim>\<open>pd.read_csv\<close> and \<^verbatim>\<open>BertTokenizer.from_pretrained\<close> are parameters: the first
  maps a path to a data frame, the second a model name to a tokenizer, which maps the
  sentences to the fields of a \<^verbatim>\<open>BatchEncoding\<close>; each of them may raise.
\<close>

type_synonym dataframe = "(string \<times> cell list) list"
type_synonym tokenizer = "cell list \<Rightarrow> error + dict"

definition tokenize_sentences ::
  "(string \<Rightarrow> error + tokenizer) \<Rightarrow> cell list \<Rightarrow> string \<Rightarrow> heap \<Rightarrow> (error + addr) \<times> heap" where
  "tokenize_sentences from_pretrained sentences bert_base_model h =
     (case from_pretrained bert_base_model of Inl e \<Rightarrow> (Inl e, h) | Inr bert_tokenizer \<Rightarrow>
      (case bert_tokenizer sentences of Inl e \<Rightarrow> (Inl e, h) | Inr enc \<Rightarrow>
       (case alloc enc h of (a, h1) \<Rightarrow> (Inr a, h1))))"

text \<open>\<^verbatim>\<open>if mos_targets:\<close> is false for \<open>None\<close> and for the empty list.\<close>

fun truthy :: "cell list option \<Rightarrow> bool" where
  "truthy None = False"
| "truthy (Some xs) = (xs \<noteq> [])"

definition get_dataset ::
  "(string \<Rightarrow> error + dataframe) \<Rightarrow> (string \<Rightarrow> error + tokenizer) \<Rightarrow> (real \<Rightarrow> scalar) \<Rightarrow>
   string \<Rightarrow> string \<Rightarrow> heap \<Rightarrow> (error + SentenceComplexityDataset) \<times> heap" where
  "get_dataset read_csv from_pretrained f32 dataset_file_path bert_base_model h =
     (case read_csv dataset_file_path of Inl e \<Rightarrow> (Inl e, h) | Inr df_dataset \<Rightarrow>
      (case map_of df_dataset ''sent_id'' of None \<Rightarrow> (Inl KeyError, h) | Some sent_ids \<Rightarrow>
       (case map_of df_dataset ''sentence'' of None \<Rightarrow> (Inl KeyError, h) | Some sentences \<Rightarrow>
        (case map_of df_dataset ''MOS'' of mos_targets \<Rightarrow>
         (case tokenize_sentences from_pretrained sentences bert_base_model h of
            (Inl e, h1) \<Rightarrow> (Inl e, h1)
          | (Inr sentences_tokenized, h1) \<Rightarrow>
             (case \<lparr>key_st = Some sentences_tokenized, key_id = Some sent_ids, key_mos = None\<rparr>
              of test_data_dict \<Rightarrow>
                (case SentenceComplexityDataset_init f32
                        (if truthy mos_targets
                         then test_data_dict\<lparr>key_mos := mos_targets\<rparr>
                         else test_data_dict) of
                   Inl e \<Rightarrow> (Inl e, h1)
                 | Inr c \<Rightarrow> (Inr c, h1))))))))"

section \<open>The invariant of the data model\<close>

text \<open>
  Every field of the tokenized batch is a 2-D tensor whose first axis has size \<open>n\<close>.
\<close>

fun rows_of :: "tensor \<Rightarrow> nat option" where
  "rows_of (T2 rows) = Some (length rows)"
| "rows_of (T1 xs) = None"
| "rows_of (T0 x) = None"

definition batch_rows :: "nat \<Rightarrow> dict \<Rightarrow> bool" where
  "batch_rows n d = list_all (\<lambda>kv. rows_of (snd kv) = Some n) d"

definition invariant :: "heap \<Rightarrow> SentenceComplexityDataset \<Rightarrow> bool" where
  "invariant h self =
     (st self < length h \<and>
      batch_rows (length (id' self)) (h ! st self) \<and>
      (case mos self of None \<Rightarrow> True | Some m \<Rightarrow> length m = length (id' self)))"

section \<open>Conversion to single precision\<close>

text \<open>
  Binary floating point of precision \<open>p\<close> with exponents \<open>emin\<close> to \<open>emax\<close>: a real
  is rounded to the nearest representable value, a tie to the one with the even
  significand; below \<open>2 ^ emin\<close> the spacing stays that of \<open>emin\<close> (subnormals), and a
  result of \<open>2 ^ (emax + 1)\<close> or more is an infinity. \<open>exponent_from\<close> finds the
  exponent of \<open>a\<close> going up from \<open>emin\<close>.
\<close>

definition pow2 :: "int \<Rightarrow> real" where
  "pow2 e = (if 0 \<le> e then 2 ^ nat e else 1 / 2 ^ nat (- e))"

definition round_half_even :: "real \<Rightarrow> int" where
  "round_half_even y =
     (if y - of_int \<lfloor>y\<rfloor> < 1 / 2 then \<lfloor>y\<rfloor>
      else if 1 / 2 < y - of_int \<lfloor>y\<rfloor> then \<lfloor>y\<rfloor> + 1
      else if even \<lfloor>y\<rfloor> then \<lfloor>y\<rfloor> else \<lfloor>y\<rfloor> + 1)"

fun exponent_from :: "nat \<Rightarrow> int \<Rightarrow> real \<Rightarrow> int" where
  "exponent_from 0 e a = e"
| "exponent_from (Suc k) e a = (if a < pow2 (e + 1) then e else exponent_from k (e + 1) a)"

definition round_binary :: "nat \<Rightarrow> int \<Rightarrow> int \<Rightarrow> real \<Rightarrow> scalar" where
  "round_binary p emin emax x =
     (let a = \<bar>x\<bar>;
          e = exponent_from (nat (emax + 1 - emin)) emin a;
          ulp = pow2 (e + 1 - int p);
          r = of_int (round_half_even (a / ulp)) * ulp
      in if pow2 (emax + 1) \<le> r then (if 0 < x then PosInf else NegInf)
         else Finite (if 0 \<le> x then r else - r))"

text \<open>
  \<^verbatim>\<open>torch.Tensor\<close> stores a Python number as a single-precision float: the number is
  taken as a double (an \<^verbatim>\<open>int\<close> is converted, a \<^verbatim>\<open>float\<close> is one already, and \<open>float64\<close>
  leaves a double as it is), and the double is cast to single precision.
\<close>

definition float64 :: "real \<Rightarrow> scalar" where
  "float64 = round_binary 53 (- 1022) 1023"

definition float32 :: "real \<Rightarrow> scalar" where
  "float32 = round_binary 24 (- 126) 127"

definition to_float32 :: "real \<Rightarrow> scalar" where
  "to_float32 x = (case float64 x of Finite d \<Rightarrow> float32 d | s \<Rightarrow> s)"

section \<open>What a caller observes\<close>

text \<open>
  The outcome of a call of \<^verbatim>\<open>__getitem__\<close>: the exception, or the contents of the
  dict it returned (Python compares dicts by their contents).
\<close>

definition outcome :: "(error + addr) \<times> heap \<Rightarrow> error + dict" where
  "outcome r = (case fst r of Inl e \<Rightarrow> Inl e | Inr a \<Rightarrow> Inr (snd r ! a))"

text \<open>The primary container under the adapters.\<close>

fun primary :: "dataset \<Rightarrow> SentenceComplexityDataset" where
  "primary (Primary self) = self"
| "primary (Finetuning d) = primary d"

section \<open>Example data\<close>

text \<open>
  A tokenized batch of two sentences, data frames with and without the optional and
  the required columns, a file system that holds a given data frame at every path and
  a tokenizer that returns a given batch.
\<close>

definition example_enc :: dict where
  "example_enc =
     [(''input_ids'', T2 [[Finite 101, Finite 7, Finite 102], [Finite 101, Finite 8, Finite 102]]),
      (''attention_mask'', T2 [[Finite 1, Finite 1, Finite 1], [Finite 1, Finite 1, Finite 1]])]"

definition example_csv :: dataframe where
  "example_csv =
     [(''sent_id'', [Num 1, Num 2]),
      (''sentence'', [Str ''The cat sat.'', Str ''A very long complicated sentence.'']),
      (''MOS'', [Num 2.5, Num 4.8])]"

definition example_csv_no_mos :: dataframe where
  "example_csv_no_mos =
     [(''sent_id'', [Num 1, Num 2]),
      (''sentence'', [Str ''The cat sat.'', Str ''A very long complicated sentence.''])]"

definition example_csv_no_sentence :: dataframe where
  "example_csv_no_sentence = [(''sent_id'', [Num 1, Num 2]), (''MOS'', [Num 2.5, Num 4.8])]"

definition example_read_csv :: "dataframe \<Rightarrow> string \<Rightarrow> error + dataframe" where
  "example_read_csv df path = Inr df"

definition example_tokenizer :: "dict \<Rightarrow> tokenizer" where
  "example_tokenizer enc sentences = Inr enc"

definition example_from_pretrained :: "dict \<Rightarrow> string \<Rightarrow> error + tokenizer" where
  "example_from_pretrained enc bert_base_model = Inr (example_tokenizer enc)"



text \<open>A store holding the batch of two sentences, and containers with and without targets over it.\<close>

definition example_heap :: heap where
  "example_heap = [example_enc]"

definition example_dataset :: SentenceComplexityDataset where
  "example_dataset = \<lparr>st = 0, id' = [Finite 1, Finite 2], mos = Some [Finite 2.5, Finite 4.75]\<rparr>"

definition example_dataset_no_mos :: SentenceComplexityDataset where
  "example_dataset_no_mos = \<lparr>st = 0, id' = [Finite 1, Finite 2], mos = None\<rparr>"

text \<open>A store whose tokenized batch has a field that is itself named \<^verbatim>\<open>'label'\<close>.\<close>

definition example_heap_label_field :: heap where
  "example_heap_label_field =
     [[(''input_ids'', T2 [[Finite 101, Finite 7, Finite 102], [Finite 101, Finite 8, Finite 102]]),
       (''label'', T2 [[Finite 0], [Finite 1]])]]"

section \<open>Indexing and the comprehension\<close>

lemma norm_index_valid: "0 \<le> idx \<Longrightarrow> idx < int n \<Longrightarrow> norm_index n idx = Inr (nat idx)"
  by (simp add: norm_index_def)



lemma norm_index_bound: "norm_index n idx = Inr j \<Longrightarrow> j < n"
  by (auto simp add: norm_index_def split: if_splits)



lemma getitem_row_defined:
  "rows_of v = Some n \<Longrightarrow> norm_index n i = Inr j \<Longrightarrow> \<exists>r. getitem_row v i = Inr r"
  by (cases v) auto



lemma comprehension_defined:
  "batch_rows n d \<Longrightarrow> norm_index n i = Inr j \<Longrightarrow> \<exists>r. comprehension d i acc = Inr r"
proof (induction d arbitrary: acc)
  case Nil
  show ?case by simp
next
  case (Cons kv d)
  obtain key val where kv: "kv = (key, val)" by (cases kv)
  from Cons.prems have r: "rows_of val = Some n" and b: "batch_rows n d"
    by (simp_all add: batch_rows_def kv)
  obtain x where "getitem_row val i = Inr x"
    using getitem_row_defined [OF r Cons.prems(2)] by blast
  then show ?case
    using Cons.IH [OF b Cons.prems(2)] by (simp add: kv)
qed

lemma comprehension_keys:
  "comprehension d idx acc = Inr r \<Longrightarrow> fst ` set r = fst ` set acc \<union> fst ` set d"
proof (induction d idx acc rule: comprehension.induct)
  case (1 idx acc)
  then show ?case by simp
next
  case (2 key val kvs idx acc)
  then show ?case
    by (auto split: sum.splits simp add: AList.dom_update)
qed


section \<open>The primary container in the store\<close>

text \<open>
  What \<^verbatim>\<open>__getitem__\<close> of the primary container returns and how it leaves the store:
  a call appends at most one dict and changes nothing else.
\<close>

lemma dict_setitem_last: "dict_setitem (h @ [d]) (length h) k v = h @ [AList.update k v d]"
  by (simp add: dict_setitem_def)

lemma dict_pop_last: "dict_pop (h @ [d]) (length h) k = h @ [AList.delete k d]"
  by (simp add: dict_pop_def)

lemma deref_append: "a < length h \<Longrightarrow> deref (h @ ext) a = deref h a"
  by (simp add: deref_def nth_append)

lemmas scd_getitem_unfold =
  SentenceComplexityDataset_getitem_def alloc_def dict_setitem_last

lemma scd_getitem_dangling:
  "\<not> st c < length h \<Longrightarrow> SentenceComplexityDataset_getitem c idx h = (Inl BadAddress, h)"
  by (simp add: SentenceComplexityDataset_getitem_def deref_def)

lemma scd_getitem_returns:
  "SentenceComplexityDataset_getitem c idx h = (Inr a, h') \<Longrightarrow>
   st c < length h \<and> a = length h \<and> (\<exists>x. h' = h @ [x])"
  by (auto simp add: scd_getitem_unfold deref_def split: sum.splits option.splits if_splits)

lemma scd_getitem_raises:
  "SentenceComplexityDataset_getitem c idx h = (Inl e, h') \<Longrightarrow> h' = h \<or> (\<exists>x. h' = h @ [x])"
  by (auto simp add: scd_getitem_unfold split: sum.splits option.splits)


lemma scd_getitem_append:
  "st c < length h \<Longrightarrow>
   outcome (SentenceComplexityDataset_getitem c idx (h @ ext)) =
   outcome (SentenceComplexityDataset_getitem c idx h)"
  by (auto simp add: outcome_def SentenceComplexityDataset_getitem_def alloc_def deref_def
        dict_setitem_def nth_append split: sum.splits option.splits)

lemma scd_getitem_item:
  assumes "invariant h c" and "norm_index (length (id' c)) idx = Inr j"
  shows "\<exists>d. comprehension (h ! st c) idx [] = Inr d \<and>
     SentenceComplexityDataset_getitem c idx h =
       (Inr (length h),
        h @ [case mos c of
               None \<Rightarrow> AList.update ''id'' (T0 (id' c ! j)) d
             | Some m \<Rightarrow> AList.update ''label'' (T0 (m ! j)) (AList.update ''id'' (T0 (id' c ! j)) d)])"
proof -
  from assms(1) have a: "st c < length h" and b: "batch_rows (length (id' c)) (h ! st c)"
    by (simp_all add: invariant_def)
  obtain d where d: "comprehension (h ! st c) idx [] = Inr d"
    using comprehension_defined [OF b assms(2)] by blast
  have v: "getitem_elem (id' c) idx = Inr (T0 (id' c ! j))"
    by (simp add: getitem_elem_def assms(2))
  have t: "getitem_elem m idx = Inr (T0 (m ! j))" if "mos c = Some m" for m
    using assms that by (simp add: getitem_elem_def invariant_def)
  show ?thesis
    using a d v t by (auto simp add: scd_getitem_unfold deref_def split: option.splits)
qed


section \<open>Containers under adapters\<close>

text \<open>
  The same facts for any container, by induction on the adapters around the primary one.
\<close>

lemma getitem_returns:
  "getitem d idx h = (Inr a, h') \<Longrightarrow>
   st (primary d) < length h \<and> a = length h \<and> (\<exists>x. h' = h @ [x])"
proof (induction d arbitrary: a h')
  case (Primary c)
  then show ?case by (simp add: scd_getitem_returns)
next
  case (Finetuning d)
  obtain r h1 where p: "getitem d idx h = (r, h1)" by (cases "getitem d idx h")
  with Finetuning.prems have g: "getitem d idx h = (Inr a, h1)"
    and h': "h' = dict_pop h1 a ''id''"
    by (cases r; simp)+
  from Finetuning.IH [OF g] obtain x where "st (primary d) < length h" "a = length h" "h1 = h @ [x]"
    by blast
  then show ?case by (simp add: h' dict_pop_last)
qed

lemma getitem_raises:
  "getitem d idx h = (Inl e, h') \<Longrightarrow> h' = h \<or> (\<exists>x. h' = h @ [x])"
proof (induction d arbitrary: e h')
  case (Primary c)
  then show ?case by (simp add: scd_getitem_raises)
next
  case (Finetuning d)
  obtain r h1 where p: "getitem d idx h = (r, h1)" by (cases "getitem d idx h")
  with Finetuning.prems have "getitem d idx h = (Inl e, h')"
    by (cases r; simp)
  then show ?case by (rule Finetuning.IH)
qed

lemma getitem_extends: "\<exists>ext. snd (getitem d idx h) = h @ ext"
proof (cases "getitem d idx h")
  case (Pair r h')
  then show ?thesis
    by (cases r) (auto dest: getitem_raises getitem_returns)
qed

lemma getitem_prefix: "take (length h) (snd (getitem d idx h)) = h"
  using getitem_extends [of d idx h] by auto

lemma getitem_dangling:
  "\<not> st (primary d) < length h \<Longrightarrow> getitem d idx h = (Inl BadAddress, h)"
  by (induction d) (simp_all add: scd_getitem_dangling)

lemma finetuning_outcome:
  "outcome (getitem (Finetuning d) idx h) =
     (case outcome (getitem d idx h) of Inl e \<Rightarrow> Inl e | Inr item \<Rightarrow> Inr (AList.delete ''id'' item))"
proof (cases "getitem d idx h")
  case (Pair r h1)
  show ?thesis
  proof (cases r)
    case (Inl e)
    then show ?thesis using Pair by (simp add: outcome_def)
  next
    case (Inr a)
    with Pair getitem_returns [of d idx h a h1] obtain x where "a = length h" "h1 = h @ [x]"
      by blast
    then show ?thesis using Pair Inr by (simp add: outcome_def dict_pop_last)
  qed
qed

lemma getitem_append:
  "st (primary d) < length h \<Longrightarrow> outcome (getitem d idx (h @ ext)) = outcome (getitem d idx h)"
proof (induction d)
  case (Primary c)
  then show ?case by (simp add: scd_getitem_append)
next
  case (Finetuning d)
  then show ?case by (simp only: finetuning_outcome primary.simps)
qed

lemma getitem_after:
  assumes "primary d = primary d'"
  shows "outcome (getitem d j (snd (getitem d' idx h))) = outcome (getitem d j h)"
proof (cases "st (primary d) < length h")
  case True
  obtain ext where "snd (getitem d' idx h) = h @ ext"
    using getitem_extends by blast
  then show ?thesis using True by (simp add: getitem_append)
next
  case False
  then have "getitem d' idx h = (Inl BadAddress, h)"
    using assms by (simp add: getitem_dangling)
  then show ?thesis by simp
qed






section \<open>The loader and the items of a container\<close>

lemma Tensor_numeric: "list_all is_num xs \<Longrightarrow> Tensor f32 xs = Inr (map (\<lambda>c. f32 (num_of c)) xs)"
  by (simp add: Tensor_def)

lemma get_dataset_result:
  assumes "read_csv dataset_file_path = Inr df"
    and "map_of df ''sent_id'' = Some sent_ids"
    and "map_of df ''sentence'' = Some sentences"
    and "list_all is_num sent_ids"
    and "case map_of df ''MOS'' of None \<Rightarrow> True | Some ts \<Rightarrow> list_all is_num ts"
    and "from_pretrained bert_base_model = Inr tok"
    and "tok sentences = Inr enc"
  shows "get_dataset read_csv from_pretrained f32 dataset_file_path bert_base_model h =
     (Inr \<lparr>st = length h, id' = map (\<lambda>c. f32 (num_of c)) sent_ids,
           mos = (case map_of df ''MOS'' of None \<Rightarrow> None
                  | Some ts \<Rightarrow> if ts = [] then None else Some (map (\<lambda>c. f32 (num_of c)) ts))\<rparr>,
      h @ [enc])"
proof -
  have t: "tokenize_sentences from_pretrained sentences bert_base_model h = (Inr (length h), h @ [enc])"
    by (simp add: tokenize_sentences_def alloc_def assms(6,7))
  show ?thesis
  proof (cases "map_of df ''MOS''")
    case None
    then show ?thesis
      by (simp add: get_dataset_def assms(1-3) t SentenceComplexityDataset_init_def
            Tensor_numeric [OF assms(4)])
  next
    case (Some ts)
    with assms(5) have n: "list_all is_num ts" by simp
    show ?thesis
      by (simp add: get_dataset_def assms(1-3) t Some SentenceComplexityDataset_init_def
            Tensor_numeric [OF assms(4)] Tensor_numeric [OF n])
  qed
qed

lemma primary_item:
  assumes "invariant h c" and "norm_index (length (id' c)) idx = Inr j"
  shows "\<exists>item. outcome (getitem (Primary c) idx h) = Inr item \<and>
     map_of item ''id'' = Some (T0 (id' c ! j)) \<and>
     (case mos c of
        Some m \<Rightarrow> map_of item ''label'' = Some (T0 (m ! j))
      | None \<Rightarrow> (''label'' \<in> fst ` set item \<longleftrightarrow> ''label'' \<in> fst ` set (h ! st c)))"
proof -
  obtain d where d: "comprehension (h ! st c) idx [] = Inr d"
    and g: "SentenceComplexityDataset_getitem c idx h =
       (Inr (length h),
        h @ [case mos c of
               None \<Rightarrow> AList.update ''id'' (T0 (id' c ! j)) d
             | Some m \<Rightarrow> AList.update ''label'' (T0 (m ! j)) (AList.update ''id'' (T0 (id' c ! j)) d)])"
    using scd_getitem_item [OF assms] by blast
  have k: "fst ` set d = fst ` set (h ! st c)"
    using comprehension_keys [OF d] by simp
  show ?thesis
  proof (cases "mos c")
    case None
    then show ?thesis
      by (simp add: g outcome_def AList.update_conv' AList.dom_update k)
  next
    case (Some m)
    then show ?thesis
      by (simp add: g outcome_def AList.update_conv')
  qed
qed



section \<open>The invariant in the store\<close>

lemma invariant_preserved:
  assumes "invariant h c"
  shows "invariant (snd (getitem d idx h)) c"
proof -
  obtain ext where "snd (getitem d idx h) = h @ ext"
    using getitem_extends by blast
  then show ?thesis
    using assms by (simp add: invariant_def nth_append)
qed

lemma loaded_invariant:
  assumes "length sent_ids = n" and "batch_rows n enc"
    and "case mt of None \<Rightarrow> True | Some ts \<Rightarrow> length ts = n"
  shows "invariant (h @ [enc])
     \<lparr>st = length h, id' = map f sent_ids,
      mos = (case mt of None \<Rightarrow> None
             | Some ts \<Rightarrow> if ts = [] then None else Some (map f ts))\<rparr>"
  using assms by (simp add: invariant_def split: option.splits)


section \<open>Rounding, evaluated\<close>

text \<open>
  Once the exponent of a value is known, its rounding is a matter of arithmetic.
\<close>

lemma pow2_powi: "pow2 e = 2 powi e"
  by (simp add: pow2_def power_int_def inverse_eq_divide power_one_over)

lemma pow2_less: "e < e' \<Longrightarrow> pow2 e < pow2 e'"
  by (simp add: pow2_powi power_int_strict_increasing)

lemma pow2_less_iff: "pow2 e < pow2 e' \<longleftrightarrow> e < e'"
proof
  assume l: "pow2 e < pow2 e'"
  show "e < e'"
  proof (rule ccontr)
    assume "\<not> e < e'"
    then have "e' = e \<or> e' < e" by auto
    then have "pow2 e' \<le> pow2 e"
      using pow2_less [of e' e] by auto
    with l show False by simp
  qed
qed (rule pow2_less)

lemma exponent_from_eq:
  "pow2 e \<le> a \<Longrightarrow> a < pow2 (e + 1) \<Longrightarrow> e0 \<le> e \<Longrightarrow> e \<le> e0 + int k \<Longrightarrow>
   exponent_from k e0 a = e"
proof (induction k arbitrary: e0)
  case 0
  then show ?case by simp
next
  case (Suc k)
  show ?case
  proof (cases "a < pow2 (e0 + 1)")
    case True
    with Suc.prems(1) have "pow2 e < pow2 (e0 + 1)" by linarith
    then have "e < e0 + 1" by (simp add: pow2_less_iff)
    with Suc.prems(3) True show ?thesis by simp
  next
    case False
    with Suc.prems(2) have "pow2 (e0 + 1) < pow2 (e + 1)" by linarith
    then have "e0 + 1 \<le> e" by (simp add: pow2_less_iff)
    moreover have "e \<le> (e0 + 1) + int k" using Suc.prems(4) by simp
    ultimately have "exponent_from k (e0 + 1) a = e"
      using Suc.prems(1,2) Suc.IH by blast
    with False show ?thesis by simp
  qed
qed

lemma round_binary_at:
  assumes "pow2 e \<le> \<bar>x\<bar>" and "\<bar>x\<bar> < pow2 (e + 1)" and "emin \<le> e" and "e \<le> emax"
  shows "round_binary p emin emax x =
     (if pow2 (emax + 1) \<le> of_int (round_half_even (\<bar>x\<bar> / pow2 (e + 1 - int p))) * pow2 (e + 1 - int p)
      then (if 0 < x then PosInf else NegInf)
      else Finite (if 0 \<le> x
                   then of_int (round_half_even (\<bar>x\<bar> / pow2 (e + 1 - int p))) * pow2 (e + 1 - int p)
                   else - (of_int (round_half_even (\<bar>x\<bar> / pow2 (e + 1 - int p))) * pow2 (e + 1 - int p))))"
proof -
  have "e \<le> emin + int (nat (emax + 1 - emin))"
    using assms(3,4) by simp
  with assms have "exponent_from (nat (emax + 1 - emin)) emin \<bar>x\<bar> = e"
    by (intro exponent_from_eq) simp_all
  then show ?thesis
    unfolding round_binary_def Let_def by (simp only:)
qed




lemma float64_4_8: "float64 4.8 = Finite (5404319552844595 / 1125899906842624)"
  unfolding float64_def
  by (subst round_binary_at [where e = 2]) (simp_all add: pow2_def round_half_even_def)

lemma float32_4_8: "float32 (5404319552844595 / 1125899906842624) = Finite (5033165 / 1048576)"
  unfolding float32_def
  by (subst round_binary_at [where e = 2]) (simp_all add: pow2_def round_half_even_def)

lemma to_float32_4_8: "to_float32 4.8 = Finite (5033165 / 1048576)"
  unfolding to_float32_def float64_4_8 by (simp add: float32_4_8)

lemma to_float32_1: "to_float32 1 = Finite 1"
proof -
  have "float64 1 = Finite 1"
    unfolding float64_def
    by (subst round_binary_at [where e = 0]) (simp_all add: pow2_def round_half_even_def)
  moreover have "float32 1 = Finite 1"
    unfolding float32_def
    by (subst round_binary_at [where e = 0]) (simp_all add: pow2_def round_half_even_def)
  ultimately show ?thesis by (simp add: to_float32_def)
qed

lemma to_float32_2: "to_float32 2 = Finite 2"
proof -
  have "float64 2 = Finite 2"
    unfolding float64_def
    by (subst round_binary_at [where e = 1]) (simp_all add: pow2_def round_half_even_def)
  moreover have "float32 2 = Finite 2"
    unfolding float32_def
    by (subst round_binary_at [where e = 1]) (simp_all add: pow2_def round_half_even_def)
  ultimately show ?thesis by (simp add: to_float32_def)
qed

lemma to_float32_5_2: "to_float32 (5 / 2) = Finite (5 / 2)"
proof -
  have "float64 (5 / 2) = Finite (5 / 2)"
    unfolding float64_def
    by (subst round_binary_at [where e = 1]) (simp_all add: pow2_def round_half_even_def)
  moreover have "float32 (5 / 2) = Finite (5 / 2)"
    unfolding float32_def
    by (subst round_binary_at [where e = 1]) (simp_all add: pow2_def round_half_even_def)
  ultimately show ?thesis by (simp add: to_float32_def)
qed

lemma to_float32_24_5: "to_float32 (24 / 5) = Finite (5033165 / 1048576)"
  using to_float32_4_8 by simp

lemma pow2_add: "pow2 (a + b) = pow2 a * pow2 b"
  by (simp add: pow2_powi power_int_add)

lemma pow2_pos: "0 < pow2 e"
  by (simp add: pow2_powi)

lemma pow2_le: "e \<le> e' \<Longrightarrow> pow2 e \<le> pow2 e'"
  using pow2_less [of e e'] by (cases "e = e'") auto

lemma exponent_from_top: "pow2 (e0 + int k) \<le> a \<Longrightarrow> exponent_from k e0 a = e0 + int k"
proof (induction k arbitrary: e0)
  case 0
  then show ?case by simp
next
  case (Suc k)
  have "pow2 (e0 + 1) \<le> pow2 (e0 + int (Suc k))"
    by (rule pow2_le) simp
  with Suc.prems have "\<not> a < pow2 (e0 + 1)" by linarith
  moreover have "exponent_from k (e0 + 1) a = e0 + 1 + int k"
    using Suc.prems by (intro Suc.IH) (simp add: add.assoc)
  ultimately show ?case by simp
qed

lemma round_half_even_ge: "of_int m \<le> y \<Longrightarrow> m \<le> round_half_even y"
proof -
  assume "of_int m \<le> y"
  then have "m \<le> \<lfloor>y\<rfloor>" by (simp add: le_floor_iff)
  then show ?thesis by (simp add: round_half_even_def)
qed

lemma round_binary_overflow:
  assumes "pow2 (emax + 1) \<le> \<bar>x\<bar>" and "emin \<le> emax + 1" and "0 < p"
  shows "round_binary p emin emax x = (if 0 < x then PosInf else NegInf)"
proof -
  let ?ulp = "pow2 (emax + 1 + 1 - int p)"
  have e: "exponent_from (nat (emax + 1 - emin)) emin \<bar>x\<bar> = emax + 1"
    using exponent_from_top [of emin "nat (emax + 1 - emin)" "\<bar>x\<bar>"] assms(1,2) by simp
  have "pow2 (emax + 1) = pow2 (int p - 1) * ?ulp"
    using pow2_add [of "int p - 1" "emax + 1 + 1 - int p"] by (simp add: algebra_simps)
  moreover have "pow2 (int p - 1) = of_int (2 ^ (p - 1))"
    using assms(3) by (simp add: pow2_def nat_diff_distrib')
  ultimately have m: "pow2 (emax + 1) = of_int (2 ^ (p - 1)) * ?ulp"
    by simp
  have "of_int (2 ^ (p - 1)) \<le> \<bar>x\<bar> / ?ulp"
    using assms(1) m pow2_pos [of "emax + 1 + 1 - int p"] by (simp add: pos_le_divide_eq)
  then have "2 ^ (p - 1) \<le> round_half_even (\<bar>x\<bar> / ?ulp)"
    by (rule round_half_even_ge)
  then have "(of_int (2 ^ (p - 1)) :: real) \<le> of_int (round_half_even (\<bar>x\<bar> / ?ulp))"
    by (simp only: of_int_le_iff)
  then have "of_int (2 ^ (p - 1)) * ?ulp \<le> of_int (round_half_even (\<bar>x\<bar> / ?ulp)) * ?ulp"
    using pow2_pos [of "emax + 1 + 1 - int p"] by (simp add: mult_le_cancel_right)
  with m have "pow2 (emax + 1) \<le> of_int (round_half_even (\<bar>x\<bar> / ?ulp)) * ?ulp"
    by simp
  then show ?thesis
    unfolding round_binary_def Let_def e by simp
qed

lemma to_float32_overflow: "to_float32 (2 ^ 128) = PosInf"
proof -
  have "float64 (2 ^ 128) = Finite (2 ^ 128)"
    unfolding float64_def
    by (subst round_binary_at [where e = 128]) (simp_all add: pow2_def round_half_even_def)
  moreover have "float32 (2 ^ 128) = PosInf"
    unfolding float32_def
    by (subst round_binary_overflow) (simp_all add: pow2_def)
  ultimately show ?thesis by (simp add: to_float32_def)
qed






section \<open>The example data, evaluated\<close>

lemmas example_defs =
  example_heap_def example_dataset_def example_dataset_no_mos_def example_enc_def

lemmas getitem_eval =
  SentenceComplexityDataset_getitem_def deref_def alloc_def dict_setitem_def dict_pop_def
  getitem_elem_def norm_index_def

lemma example_invariant: "invariant example_heap example_dataset"
  by (simp add: invariant_def batch_rows_def example_defs)

lemma example_invariant_no_mos: "invariant example_heap example_dataset_no_mos"
  by (simp add: invariant_def batch_rows_def example_defs)

lemma example_item_0:
  "SentenceComplexityDataset_getitem example_dataset 0 example_heap =
     (Inr 1, [example_enc,
        [(''input_ids'', T1 [Finite 101, Finite 7, Finite 102]), (''attention_mask'', T1 [Finite 1, Finite 1, Finite 1]),
         (''id'', T0 (Finite 1)), (''label'', T0 (Finite 2.5))]])"
  by (simp add: example_defs getitem_eval)


lemma example_item_1:
  "SentenceComplexityDataset_getitem example_dataset 1 example_heap =
     (Inr 1, [example_enc,
        [(''input_ids'', T1 [Finite 101, Finite 8, Finite 102]), (''attention_mask'', T1 [Finite 1, Finite 1, Finite 1]),
         (''id'', T0 (Finite 2)), (''label'', T0 (Finite 4.75))]])"
  by (simp add: example_defs getitem_eval)

lemma example_item_no_mos:
  "SentenceComplexityDataset_getitem example_dataset_no_mos 1 example_heap =
     (Inr 1, [example_enc,
        [(''input_ids'', T1 [Finite 101, Finite 8, Finite 102]), (''attention_mask'', T1 [Finite 1, Finite 1, Finite 1]),
         (''id'', T0 (Finite 2))]])"
  by (simp add: example_defs getitem_eval)

lemma example_loader_facts:
  "example_read_csv example_csv ''train.csv'' = Inr example_csv"
  "example_read_csv example_csv_no_mos ''test.csv'' = Inr example_csv_no_mos"
  "map_of example_csv ''sent_id'' = Some [Num 1, Num 2]"
  "map_of example_csv ''sentence'' = Some [Str ''The cat sat.'', Str ''A very long complicated sentence.'']"
  "map_of example_csv ''MOS'' = Some [Num 2.5, Num 4.8]"
  "map_of example_csv_no_mos ''sent_id'' = Some [Num 1, Num 2]"
  "map_of example_csv_no_mos ''sentence'' = Some [Str ''The cat sat.'', Str ''A very long complicated sentence.'']"
  "map_of example_csv_no_mos ''MOS'' = None"
  "length [Num 1, Num 2] = 2"
  "length [Str ''The cat sat.'', Str ''A very long complicated sentence.''] = 2"
  "list_all is_num [Num 1, Num 2]"
  "example_from_pretrained example_enc ''bert-base-german-cased'' = Inr (example_tokenizer example_enc)"
  "example_tokenizer example_enc [Str ''The cat sat.'', Str ''A very long complicated sentence.''] = Inr example_enc"
  "batch_rows 2 example_enc"
  by (simp_all add: example_csv_def example_csv_no_mos_def example_enc_def batch_rows_def
        example_read_csv_def example_from_pretrained_def example_tokenizer_def)

lemma example_mos_facts:
  "case map_of example_csv ''MOS'' of None \<Rightarrow> True
   | Some targets \<Rightarrow> length targets = 2 \<and> list_all is_num targets"
  "case map_of example_csv_no_mos ''MOS'' of None \<Rightarrow> True
   | Some targets \<Rightarrow> length targets = 2 \<and> list_all is_num targets"
  by (simp_all add: example_csv_def example_csv_no_mos_def)

lemma example_invariant_label_field: "invariant example_heap_label_field example_dataset_no_mos"
  by (simp add: invariant_def batch_rows_def example_heap_label_field_def example_dataset_no_mos_def)

lemma example_item_label_field:
  "SentenceComplexityDataset_getitem example_dataset_no_mos 0 example_heap_label_field =
     (Inr 1,
      [[(''input_ids'', T2 [[Finite 101, Finite 7, Finite 102], [Finite 101, Finite 8, Finite 102]]),
        (''label'', T2 [[Finite 0], [Finite 1]])],
       [(''input_ids'', T1 [Finite 101, Finite 7, Finite 102]), (''label'', T1 [Finite 0]),
        (''id'', T0 (Finite 1))]])"
  by (simp add: example_heap_label_field_def example_dataset_no_mos_def getitem_eval)

section \<open>Properties of the loader\<close>




text \<open>
  Claim C5. The container that \<^verbatim>\<open>get_dataset\<close> returns satisfies the invariant: the
  identifier vector, the first axis of every field of the tokenized batch and, when
  there are targets, the target vector have the same length. No call of
  \<^verbatim>\<open>__getitem__\<close>, of this container or of any adapter, in any store where the
  invariant holds, breaks it (\<^verbatim>\<open>__len__\<close> does not touch the store).
\<close>

theorem loader_invariant:
  assumes "read_csv dataset_file_path = Inr df"
    and "map_of df ''sent_id'' = Some sent_ids" and "map_of df ''sentence'' = Some sentences"
    and "length sent_ids = n" and "length sentences = n" and "list_all is_num sent_ids"
    and "case map_of df ''MOS'' of None \<Rightarrow> True
         | Some targets \<Rightarrow> length targets = n \<and> list_all is_num targets"
    and "from_pretrained bert_base_model = Inr tok" and "tok sentences = Inr enc"
    and "batch_rows n enc"
  shows "\<exists>c. get_dataset read_csv from_pretrained f32 dataset_file_path bert_base_model h =
              (Inr c, h @ [enc]) \<and>
           invariant (h @ [enc]) c \<and>
           (\<forall>h' d idx. invariant h' c \<longrightarrow> invariant (snd (getitem d idx h')) c)"
proof -
  let ?f = "\<lambda>c. f32 (num_of c)"
  let ?c = "\<lparr>st = length h, id' = map ?f sent_ids,
            mos = (case map_of df ''MOS'' of None \<Rightarrow> None
                   | Some ts \<Rightarrow> if ts = [] then None else Some (map ?f ts))\<rparr>"
  have m: "case map_of df ''MOS'' of None \<Rightarrow> True | Some ts \<Rightarrow> list_all is_num ts"
    and l: "case map_of df ''MOS'' of None \<Rightarrow> True | Some ts \<Rightarrow> length ts = n"
    using assms(7) by (simp_all split: option.splits)
  have "get_dataset read_csv from_pretrained f32 dataset_file_path bert_base_model h =
          (Inr ?c, h @ [enc])"
    using assms(1,2,3,6) m assms(8,9) by (rule get_dataset_result)
  moreover have "invariant (h @ [enc]) ?c"
    using assms(4,10) l by (rule loaded_invariant)
  ultimately show ?thesis
    using invariant_preserved by blast
qed

theorem loader_invariant_witness:
  "\<exists>c. get_dataset (example_read_csv example_csv) (example_from_pretrained example_enc) to_float32
          ''train.csv'' ''bert-base-german-cased'' [] = (Inr c, [] @ [example_enc]) \<and>
        invariant ([] @ [example_enc]) c \<and>
        (\<forall>h' d idx. invariant h' c \<longrightarrow> invariant (snd (getitem d idx h')) c)"
  by (rule loader_invariant [where read_csv = "example_read_csv example_csv"
        and dataset_file_path = "''train.csv''"
        and from_pretrained = "example_from_pretrained example_enc"
        and bert_base_model = "''bert-base-german-cased''"
        and tok = "example_tokenizer example_enc",
        OF example_loader_facts(1,3,4,9,10,11) example_mos_facts(1) example_loader_facts(12,13,14)])

text \<open>
  Claim C6. When the data frame read from the CSV file lacks the \<^verbatim>\<open>sent_id\<close> column or
  the \<^verbatim>\<open>sentence\<close> column, \<^verbatim>\<open>get_dataset\<close> raises \<^verbatim>\<open>KeyError\<close>: the error is the
  result of the call, the store is as it was, and the tokenizer plays no part (the
  result is the same for every \<open>from_pretrained\<close>, also one that would fail).
\<close>

theorem missing_column:
  assumes "read_csv dataset_file_path = Inr df"
    and "map_of df ''sent_id'' = None \<or> map_of df ''sentence'' = None"
  shows "get_dataset read_csv from_pretrained f32 dataset_file_path bert_base_model h =
           (Inl KeyError, h)"
  using assms by (auto simp add: get_dataset_def split: option.splits)

theorem missing_column_witness:
  "map_of example_csv_no_sentence ''sentence'' = None \<and>
   get_dataset (example_read_csv example_csv_no_sentence) (\<lambda>m. Inl OSError) to_float32
     ''train.csv'' ''bert-base-german-cased'' [] = (Inl KeyError, [])"
proof -
  have a: "map_of example_csv_no_sentence ''sentence'' = None"
    by (simp add: example_csv_no_sentence_def)
  have b: "example_read_csv example_csv_no_sentence ''train.csv'' = Inr example_csv_no_sentence"
    by (simp add: example_read_csv_def)
  show ?thesis
    using a missing_column [where read_csv = "example_read_csv example_csv_no_sentence"
        and dataset_file_path = "''train.csv''", OF b disjI2 [OF a]] by simp
qed

section \<open>Properties of the constructor\<close>

text \<open>
  Claim C7. Given \<^verbatim>\<open>data\<close> with the keys \<^verbatim>\<open>'st'\<close> and \<^verbatim>\<open>'id'\<close> (lists of numbers),
  the constructor returns a container whether or not the key \<^verbatim>\<open>'mos'\<close> is there: with
  the key, \<open>mos\<close> is the converted target list; without it, \<open>mos\<close> is \<open>None\<close> and
  nothing is raised.
\<close>

theorem init_optional_targets:
  assumes "key_st data = Some s" and "key_id data = Some ids" and "list_all is_num ids"
    and "case key_mos data of None \<Rightarrow> True | Some ms \<Rightarrow> list_all is_num ms"
  shows "SentenceComplexityDataset_init f32 data =
     Inr \<lparr>st = s, id' = map (\<lambda>c. f32 (num_of c)) ids,
          mos = (case key_mos data of None \<Rightarrow> None
                 | Some ms \<Rightarrow> Some (map (\<lambda>c. f32 (num_of c)) ms))\<rparr>"
proof (cases "key_mos data")
  case None
  then show ?thesis
    by (simp add: SentenceComplexityDataset_init_def assms(1,2) Tensor_numeric [OF assms(3)])
next
  case (Some ms)
  with assms(4) have n: "list_all is_num ms" by simp
  show ?thesis
    by (simp add: SentenceComplexityDataset_init_def assms(1,2) Some
          Tensor_numeric [OF assms(3)] Tensor_numeric [OF n])
qed

theorem init_optional_targets_witness:
  "SentenceComplexityDataset_init to_float32
       \<lparr>key_st = Some 0, key_id = Some [Num 1, Num 2], key_mos = None\<rparr>
     = Inr \<lparr>st = 0, id' = [Finite 1, Finite 2], mos = None\<rparr> \<and>
   SentenceComplexityDataset_init to_float32
       \<lparr>key_st = Some 0, key_id = Some [Num 1, Num 2], key_mos = Some [Num 2.5, Num 4.8]\<rparr>
     = Inr \<lparr>st = 0, id' = [Finite 1, Finite 2],
            mos = Some [Finite 2.5, Finite (5033165 / 1048576)]\<rparr>"
  using init_optional_targets [of "\<lparr>key_st = Some 0, key_id = Some [Num 1, Num 2], key_mos = None\<rparr>"
          0 "[Num 1, Num 2]" to_float32]
        init_optional_targets [of "\<lparr>key_st = Some 0, key_id = Some [Num 1, Num 2],
            key_mos = Some [Num 2.5, Num 4.8]\<rparr>" 0 "[Num 1, Num 2]" to_float32]
  by (simp add: to_float32_1 to_float32_2 to_float32_5_2 to_float32_24_5)

section \<open>Indexing the containers\<close>

text \<open>
  Claim C2. For the adapter around any container \<open>d\<close>: its length is the length of \<open>d\<close>;
  where \<open>d\<close> returns an item, the adapter returns that item without its \<^verbatim>\<open>'id'\<close> entry,
  every other key and value as it was; when the item of \<open>d\<close> has no \<^verbatim>\<open>'id'\<close> entry the
  adapter returns it unchanged and raises nothing; where \<open>d\<close> raises, the adapter raises
  the same.
\<close>

theorem finetuning_item:
  "len (SentenceComplexityFinetuningDataset_init d) = len d \<and>
   (\<forall>item. outcome (getitem d idx h) = Inr item \<longrightarrow>
      (\<exists>item'. outcome (getitem (SentenceComplexityFinetuningDataset_init d) idx h) = Inr item' \<and>
         map_of item' = (map_of item)(''id'' := None) \<and>
         (''id'' \<notin> fst ` set item \<longrightarrow> item' = item))) \<and>
   (\<forall>e. outcome (getitem d idx h) = Inl e \<longrightarrow>
      outcome (getitem (SentenceComplexityFinetuningDataset_init d) idx h) = Inl e)"
proof -
  have "AList.delete ''id'' item = item" if "''id'' \<notin> fst ` set item" for item :: dict
    using that by (induction item) auto
  then show ?thesis
    unfolding SentenceComplexityFinetuningDataset_init_def finetuning_outcome len.simps
    by (simp add: AList.delete_conv')
qed

theorem finetuning_item_witness:
  "outcome (getitem (Primary example_dataset) 0 example_heap) =
     Inr [(''input_ids'', T1 [Finite 101, Finite 7, Finite 102]), (''attention_mask'', T1 [Finite 1, Finite 1, Finite 1]),
          (''id'', T0 (Finite 1)), (''label'', T0 (Finite 2.5))] \<and>
   outcome (getitem (SentenceComplexityFinetuningDataset_init (Primary example_dataset)) 0 example_heap) =
     Inr [(''input_ids'', T1 [Finite 101, Finite 7, Finite 102]), (''attention_mask'', T1 [Finite 1, Finite 1, Finite 1]),
          (''label'', T0 (Finite 2.5))] \<and>
   outcome (getitem (SentenceComplexityFinetuningDataset_init
       (SentenceComplexityFinetuningDataset_init (Primary example_dataset))) 0 example_heap) =
     Inr [(''input_ids'', T1 [Finite 101, Finite 7, Finite 102]), (''attention_mask'', T1 [Finite 1, Finite 1, Finite 1]),
          (''label'', T0 (Finite 2.5))] \<and>
   len (SentenceComplexityFinetuningDataset_init (Primary example_dataset)) = 2"
proof -
  have a: "outcome (getitem (Primary example_dataset) 0 example_heap) =
     Inr [(''input_ids'', T1 [Finite 101, Finite 7, Finite 102]), (''attention_mask'', T1 [Finite 1, Finite 1, Finite 1]),
          (''id'', T0 (Finite 1)), (''label'', T0 (Finite 2.5))]"
    by (simp add: outcome_def example_item_0)
  have b: "outcome (getitem (SentenceComplexityFinetuningDataset_init (Primary example_dataset)) 0 example_heap) =
     Inr [(''input_ids'', T1 [Finite 101, Finite 7, Finite 102]), (''attention_mask'', T1 [Finite 1, Finite 1, Finite 1]),
          (''label'', T0 (Finite 2.5))]"
    by (simp add: outcome_def SentenceComplexityFinetuningDataset_init_def example_item_0 dict_pop_def)
  have c: "len (Primary example_dataset) = 2"
    by (simp add: SentenceComplexityDataset_len_def example_dataset_def)
  show ?thesis
    using a b c
      finetuning_item [of "SentenceComplexityFinetuningDataset_init (Primary example_dataset)" 0 example_heap]
      finetuning_item [of "Primary example_dataset" 0 example_heap]
    by auto
qed




text \<open>
  Claim C4 says that the item has a \<^verbatim>\<open>'label'\<close> entry only if targets are set. A
  container without targets whose tokenized batch has a field named \<^verbatim>\<open>'label'\<close> returns
  items with that entry: the comprehension copies the row of every field.
\<close>

theorem label_without_targets_counterexample:
  "invariant example_heap_label_field example_dataset_no_mos \<and>
   mos example_dataset_no_mos = None \<and>
   outcome (getitem (Primary example_dataset_no_mos) 0 example_heap_label_field) =
     Inr [(''input_ids'', T1 [Finite 101, Finite 7, Finite 102]), (''label'', T1 [Finite 0]),
          (''id'', T0 (Finite 1))]"
proof -
  have "mos example_dataset_no_mos = None"
    by (simp add: example_dataset_no_mos_def)
  then show ?thesis
    by (simp add: example_invariant_label_field outcome_def example_item_label_field)
qed

text \<open>
  Claim C4, as the code has it. For a primary container that satisfies the invariant
  and a valid index: the item has a \<^verbatim>\<open>'label'\<close> entry if and only if \<open>mos\<close> is set or
  the tokenized batch has a field named \<^verbatim>\<open>'label'\<close>, and when \<open>mos\<close> is set the entry is
  the target at that index. The right-hand side does not mention the index: the entry
  is there for every index or for none.
\<close>

theorem label_iff_targets:
  assumes "invariant h c" and "0 \<le> idx" and "idx < len (Primary c)"
  shows "\<exists>item. outcome (getitem (Primary c) idx h) = Inr item \<and>
           (''label'' \<in> fst ` set item \<longleftrightarrow> mos c \<noteq> None \<or> ''label'' \<in> fst ` set (h ! st c)) \<and>
           (\<forall>m. mos c = Some m \<longrightarrow> map_of item ''label'' = Some (T0 (m ! nat idx)))"
proof -
  have "norm_index (length (id' c)) idx = Inr (nat idx)"
    using assms(2,3) by (simp add: norm_index_valid SentenceComplexityDataset_len_def)
  from primary_item [OF assms(1) this] obtain item
    where o: "outcome (getitem (Primary c) idx h) = Inr item"
      and l: "case mos c of
                Some m \<Rightarrow> map_of item ''label'' = Some (T0 (m ! nat idx))
              | None \<Rightarrow> (''label'' \<in> fst ` set item \<longleftrightarrow> ''label'' \<in> fst ` set (h ! st c))"
    by blast
  show ?thesis
  proof (cases "mos c")
    case None
    with l o show ?thesis by simp
  next
    case (Some m)
    with l have "map_of item ''label'' = Some (T0 (m ! nat idx))" by simp
    moreover from this have "''label'' \<in> fst ` set item"
      by (metis map_of_eq_None_iff option.distinct(1))
    ultimately show ?thesis using o Some by simp
  qed
qed

theorem label_iff_targets_witness:
  "(\<exists>item. outcome (getitem (Primary example_dataset) 1 example_heap) = Inr item \<and>
      ''label'' \<in> fst ` set item \<and> map_of item ''label'' = Some (T0 (Finite 4.75))) \<and>
   (\<exists>item. outcome (getitem (Primary example_dataset_no_mos) 1 example_heap) = Inr item \<and>
      ''label'' \<notin> fst ` set item) \<and>
   (\<exists>item. outcome (getitem (Primary example_dataset_no_mos) 1 example_heap_label_field) = Inr item \<and>
      ''label'' \<in> fst ` set item)"
proof -
  have a: "''label'' \<notin> fst ` set (example_heap ! st example_dataset_no_mos)"
    "''label'' \<in> fst ` set (example_heap_label_field ! st example_dataset_no_mos)"
    by (simp_all add: example_defs example_heap_label_field_def)
  have b: "(0::int) \<le> 1" "1 < len (Primary example_dataset)" "1 < len (Primary example_dataset_no_mos)"
    by (simp_all add: SentenceComplexityDataset_len_def example_defs)
  have c: "mos example_dataset = Some [Finite 2.5, Finite 4.75]" "mos example_dataset_no_mos = None"
    by (simp_all add: example_defs)
  show ?thesis
    using label_iff_targets [OF example_invariant b(1,2)]
      label_iff_targets [OF example_invariant_no_mos b(1,3)]
      label_iff_targets [OF example_invariant_label_field b(1,3)] a c
    by auto
qed



section \<open>Effects on the store\<close>

text \<open>
  Claim C8. For both container types and every index, a second call of \<^verbatim>\<open>item_at\<close>
  with the same index, made in the store the first call left, has the same outcome as
  the first; and a call changes no object that was in the store before it (the
  containers themselves are values that no call returns changed).
\<close>

theorem item_at_idempotent:
  "outcome (getitem d idx (snd (getitem d idx h))) = outcome (getitem d idx h) \<and>
   take (length h) (snd (getitem d idx h)) = h"
  by (simp add: getitem_after getitem_prefix)

theorem item_at_idempotent_witness:
  "outcome (getitem (Finetuning (Primary example_dataset)) 1
      (snd (getitem (Finetuning (Primary example_dataset)) 1 example_heap))) =
     Inr [(''input_ids'', T1 [Finite 101, Finite 8, Finite 102]), (''attention_mask'', T1 [Finite 1, Finite 1, Finite 1]),
          (''label'', T0 (Finite 4.75))] \<and>
   take 1 (snd (getitem (Finetuning (Primary example_dataset)) 1 example_heap)) = example_heap"
proof -
  have "outcome (getitem (Finetuning (Primary example_dataset)) 1 example_heap) =
     Inr [(''input_ids'', T1 [Finite 101, Finite 8, Finite 102]), (''attention_mask'', T1 [Finite 1, Finite 1, Finite 1]),
          (''label'', T0 (Finite 4.75))]"
    by (simp add: outcome_def example_item_1 dict_pop_def)
  moreover have "length example_heap = 1"
    by (simp add: example_heap_def)
  ultimately show ?thesis
    using item_at_idempotent [of "Finetuning (Primary example_dataset)" 1 example_heap]
    by simp
qed

text \<open>
  Claim C10. The dict that the primary container's \<^verbatim>\<open>__getitem__\<close> returns is a new
  object: its address is the first free one, so it is not the tokenized batch. So the
  adapter's \<^verbatim>\<open>pop\<close> changes no object that was in the store, the tokenized batch is as
  it was, and a later \<^verbatim>\<open>item_at\<close> of the wrapped container returns what it would have
  returned before.
\<close>

theorem fresh_item:
  "(getitem (Primary c) idx h = (Inr a, h1) \<longrightarrow>
      a = length h \<and> st c < a \<and> take (length h) h1 = h) \<and>
   take (length h) (snd (getitem (Finetuning d) idx h)) = h \<and>
   (st (primary d) < length h \<longrightarrow>
      snd (getitem (Finetuning d) idx h) ! st (primary d) = h ! st (primary d)) \<and>
   outcome (getitem d j (snd (getitem (Finetuning d) idx h))) = outcome (getitem d j h)"
proof -
  have 1: "getitem (Primary c) idx h = (Inr a, h1) \<longrightarrow>
      a = length h \<and> st c < a \<and> take (length h) h1 = h"
    using getitem_returns [of "Primary c" idx h a h1] by auto
  have 2: "take (length h) (snd (getitem (Finetuning d) idx h)) = h"
    by (rule getitem_prefix)
  have 3: "snd (getitem (Finetuning d) idx h) ! st (primary d) = h ! st (primary d)"
    if "st (primary d) < length h"
  proof -
    have "take (length h) (snd (getitem (Finetuning d) idx h)) ! st (primary d) = h ! st (primary d)"
      by (simp only: 2)
    then show ?thesis using that by simp
  qed
  have 4: "outcome (getitem d j (snd (getitem (Finetuning d) idx h))) = outcome (getitem d j h)"
    by (rule getitem_after) simp
  show ?thesis
    using 1 2 3 4 by blast
qed

theorem fresh_item_witness:
  "getitem (Primary example_dataset) 0 example_heap =
     (Inr 1, [example_enc,
        [(''input_ids'', T1 [Finite 101, Finite 7, Finite 102]), (''attention_mask'', T1 [Finite 1, Finite 1, Finite 1]),
         (''id'', T0 (Finite 1)), (''label'', T0 (Finite 2.5))]]) \<and>
   1 = length example_heap \<and> st example_dataset < 1 \<and>
   snd (getitem (Finetuning (Primary example_dataset)) 0 example_heap) ! 0 = example_enc \<and>
   outcome (getitem (Primary example_dataset) 0
      (snd (getitem (Finetuning (Primary example_dataset)) 0 example_heap))) =
     Inr [(''input_ids'', T1 [Finite 101, Finite 7, Finite 102]), (''attention_mask'', T1 [Finite 1, Finite 1, Finite 1]),
          (''id'', T0 (Finite 1)), (''label'', T0 (Finite 2.5))]"
proof -
  let ?item = "[(''input_ids'', T1 [Finite 101, Finite 7, Finite 102]), (''attention_mask'', T1 [Finite 1, Finite 1, Finite 1]),
                (''id'', T0 (Finite 1)), (''label'', T0 (Finite 2.5))]"
  have a: "getitem (Primary example_dataset) 0 example_heap = (Inr 1, [example_enc, ?item])"
    by (simp add: example_item_0)
  have b: "st (primary (Primary example_dataset)) < length example_heap"
    by (simp add: example_heap_def example_dataset_def)
  have s: "st (primary (Primary example_dataset)) = 0"
    by (simp add: example_dataset_def)
  have e: "example_heap ! 0 = example_enc"
    by (simp add: example_heap_def)
  have c: "outcome (getitem (Primary example_dataset) 0 example_heap) = Inr ?item"
    by (simp add: outcome_def example_item_0)
  note f = fresh_item [of example_dataset 0 example_heap 1 "[example_enc, ?item]"
      "Primary example_dataset" 0]
  from f a have 1: "1 = length example_heap \<and> st example_dataset < 1"
    by blast
  from f b have 2: "snd (getitem (Finetuning (Primary example_dataset)) 0 example_heap) !
      st (primary (Primary example_dataset)) = example_heap ! st (primary (Primary example_dataset))"
    by blast
  from f have 3: "outcome (getitem (Primary example_dataset) 0
      (snd (getitem (Finetuning (Primary example_dataset)) 0 example_heap))) =
      outcome (getitem (Primary example_dataset) 0 example_heap)"
    by blast
  show ?thesis
    using a 1 2 [unfolded s e] trans [OF 3 c] by blast
qed

end
